theory Spec2Isabelle
  imports Main "HOL-Library.Word"
begin

section \<open>The quadrature encoder simulator of quadrature.cpp\<close>

text \<open>
  The program keeps its state in module-level variables and in the locals of
  \<^verbatim>\<open>process_events\<close>. Its main loop polls the millisecond clock, fires one
  transition of the simulated encoder when the refresh deadline has passed and the
  simulation is not stopped, and then answers one button event.

  The C++ types \<^verbatim>\<open>int\<close>, \<^verbatim>\<open>unsigned int\<close> and \<^verbatim>\<open>unsigned long\<close> are 32 bits wide on
  the WebAssembly target the program is built for; they are modelled as 32-bit words.
  Signed comparisons are written with \<open><s\<close>, unsigned ones with \<open>\<le>\<close>; addition
  and subtraction wrap.
\<close>

type_synonym int32 = "32 word"
type_synonym uint32 = "32 word"

subsection \<open>Constants and state\<close>

text \<open>\<^verbatim>\<open>#define PinA 13\<close>, \<^verbatim>\<open>#define PinB 27\<close>.\<close>

definition PinA :: nat where
  "PinA = 13"

definition PinB :: nat where
  "PinB = 27"

text \<open>
  \<^verbatim>\<open>const int nextStateTable[][4] = {{0,0},{1,0},{1,1},{0,1}};\<close>
  The rows are declared four wide, so each one is padded with zeros.
\<close>

definition nextStateTable :: "int32 list list" where
  "nextStateTable = [[0, 0, 0, 0], [1, 0, 0, 0], [1, 1, 0, 0], [0, 1, 0, 0]]"

text \<open>
  The globals of lines 54--78 and the locals of \<^verbatim>\<open>process_events\<close> (lines 292--310).
  \<open>io\<close> is the log of the \<^verbatim>\<open>setIO(pin, value)\<close> calls, oldest first. The calls that
  only draw on the panel are not part of the state.
\<close>

record sim =
  nextStateIndex :: int32
  direction :: int32
  sensorRefreshRate :: uint32
  sensorOldMillis :: uint32
  numberTeeth :: uint32
  totalRefs :: int32
  quadMode :: "8 word"
  tickLimit :: int32
  stopSimulation :: bool
  transitionCount :: int32
  revTickThreshold :: int32
  revTickCount :: int32
  sensorState0 :: int32
  sensorState1 :: int32
  io :: "(nat \<times> int32) list"

text \<open>
  The state when the loop is entered. The source fixes \<^verbatim>\<open>numberTeeth = 25\<close> and
  \<^verbatim>\<open>sensorRefreshRate = 10\<close>; they are parameters here so that other values can be
  examined. \<open>rps\<close> stands for \<^verbatim>\<open>static_cast<int>(revPerSecond)\<close>, the truncation of a
  single-precision float, which is taken as given.
\<close>

definition process_events_init :: "uint32 \<Rightarrow> uint32 \<Rightarrow> int32 \<Rightarrow> sim" where
  "process_events_init teeth refresh rps =
     \<lparr> nextStateIndex = 0,
       direction = 1,
       sensorRefreshRate = refresh,
       sensorOldMillis = 0,
       numberTeeth = teeth,
       totalRefs = 0,
       quadMode = 0,
       tickLimit = 1,
       stopSimulation = True,
       transitionCount = 0,
       revTickThreshold = 4 * teeth * rps,
       revTickCount = 0,
       sensorState0 = 0,
       sensorState1 = 0,
       io = [(PinA, 0), (PinB, 0)] \<rparr>"

text \<open>The program as shipped: 25 teeth, 10 ms, and a revolutions-per-second figure of 1.\<close>

definition shipped :: sim where
  "shipped = process_events_init 25 10 1"

subsection \<open>One transition (lines 327--363)\<close>

text \<open>\<^verbatim>\<open>millis() >= sensorOldMillis\<close>\<close>

definition is_due :: "uint32 \<Rightarrow> sim \<Rightarrow> bool" where
  "is_due now s = (sensorOldMillis s \<le> now)"

text \<open>\<^verbatim>\<open>sensorOldMillis = millis() + sensorRefreshRate;\<close>\<close>

definition arm :: "uint32 \<Rightarrow> sim \<Rightarrow> sim" where
  "arm now s = s\<lparr>sensorOldMillis := now + sensorRefreshRate s\<rparr>"

text \<open>
  Lines 329--332: the pins are read from the table at the index the state holds on
  entry, and written out.
\<close>

definition emit_pins :: "sim \<Rightarrow> sim" where
  "emit_pins s =
     (let a = nextStateTable ! unat (nextStateIndex s) ! 0;
          b = nextStateTable ! unat (nextStateIndex s) ! 1
      in s\<lparr>sensorState0 := a, sensorState1 := b,
            io := io s @ [(PinA, a), (PinB, b)]\<rparr>)"

text \<open>Lines 336--347.\<close>

definition step_counters :: "sim \<Rightarrow> sim" where
  "step_counters s =
     (if direction s \<noteq> 0
      then s\<lparr>nextStateIndex := nextStateIndex s + 1,
             transitionCount := transitionCount s + 1,
             revTickCount := revTickCount s + 1\<rparr>
      else s\<lparr>nextStateIndex := nextStateIndex s - 1,
             transitionCount := transitionCount s - 1,
             revTickCount := revTickCount s - 1\<rparr>)"

text \<open>Lines 348--353.\<close>

definition wrap_index :: "sim \<Rightarrow> sim" where
  "wrap_index s =
     (let s1 = (if 3 <s nextStateIndex s then s\<lparr>nextStateIndex := 0\<rparr> else s)
      in if nextStateIndex s1 <s 0 then s1\<lparr>nextStateIndex := 3\<rparr> else s1)"

text \<open>Lines 356--363.\<close>

definition count_revolution :: "sim \<Rightarrow> sim" where
  "count_revolution s =
     (if revTickCount s = revTickThreshold s \<or> revTickCount s = - revTickThreshold s
      then (if direction s \<noteq> 0
            then s\<lparr>revTickCount := 0, totalRefs := totalRefs s + 1\<rparr>
            else s\<lparr>revTickCount := 0, totalRefs := totalRefs s - 1\<rparr>)
      else s)"

text \<open>The body of the \<^verbatim>\<open>if\<close> of line 327; \<open>now\<close> is the clock read on line 328.\<close>

definition transition :: "uint32 \<Rightarrow> sim \<Rightarrow> sim" where
  "transition now s = count_revolution (wrap_index (step_counters (emit_pins (arm now s))))"

text \<open>
  The simulation section of one loop iteration. The clock is read twice: \<open>t1\<close> in the
  condition of line 327 and \<open>t2\<close> on line 328.
\<close>

definition tick :: "uint32 \<Rightarrow> uint32 \<Rightarrow> sim \<Rightarrow> sim" where
  "tick t1 t2 s = (if is_due t1 s \<and> \<not> stopSimulation s then transition t2 s else s)"

subsection \<open>Button events and the loop (lines 395--456)\<close>

datatype event =
  NoEvent | NumEdit | OtherEvent
  | GrayButton | YellowButton | GreenButton | BlueButton | RedButton

fun button_response :: "event \<Rightarrow> sim \<Rightarrow> sim" where
  "button_response BlueButton s = s\<lparr>stopSimulation := \<not> stopSimulation s\<rparr>"
| "button_response GreenButton s =
     (if direction s \<noteq> 0 then s\<lparr>direction := 0\<rparr> else s\<lparr>direction := 1\<rparr>)"
| "button_response _ s = s"

text \<open>
  The loop over the inputs it is given: each iteration gets the two clock readings and
  the event that is pending, if any. The red button returns from the loop.
\<close>

fun process_events :: "(uint32 \<times> uint32 \<times> event) list \<Rightarrow> sim \<Rightarrow> sim" where
  "process_events [] s = s"
| "process_events ((t1, t2, ev) # rest) s =
     (let s' = button_response ev (tick t1 t2 s)
      in if ev = RedButton then s' else process_events rest s')"

subsection \<open>Runs of the simulation section\<close>

text \<open>
  Consecutive transitions with no button event in between, one per clock reading; the
  direction is the one the state holds.
\<close>

fun transitions :: "uint32 list \<Rightarrow> sim \<Rightarrow> sim" where
  "transitions [] s = s"
| "transitions (t # ts) s = transitions ts (transition t s)"

text \<open>Consecutive loop iterations in which no event is pending.\<close>

fun ticks :: "(uint32 \<times> uint32) list \<Rightarrow> sim \<Rightarrow> sim" where
  "ticks [] s = s"
| "ticks ((t1, t2) # ts) s = ticks ts (tick t1 t2 s)"

text \<open>The shipped program after the blue button has started the simulation.\<close>

definition running :: sim where
  "running = button_response BlueButton shipped"

subsection \<open>Predicates used in the statements\<close>

definition legal_index :: "int32 \<Rightarrow> bool" where
  "legal_index i = (i = 0 \<or> i = 1 \<or> i = 2 \<or> i = 3)"

text \<open>
  The start state as a description would have it when the deadline is to equal the
  time \<open>now\<close> at which the simulator is set up.
\<close>

definition initial_as_claimed :: "uint32 \<Rightarrow> sim \<Rightarrow> bool" where
  "initial_as_claimed now s =
     (stopSimulation s \<and> nextStateIndex s = 0 \<and> transitionCount s = 0 \<and>
      revTickCount s = 0 \<and> totalRefs s = 0 \<and> sensorOldMillis s = now)"

section \<open>Properties\<close>

subsection \<open>What each part of a transition leaves alone\<close>

lemma arm_fields [simp]:
  "nextStateIndex (arm t s) = nextStateIndex s"
  "direction (arm t s) = direction s"
  "revTickCount (arm t s) = revTickCount s"
  "revTickThreshold (arm t s) = revTickThreshold s"
  "totalRefs (arm t s) = totalRefs s"
  "transitionCount (arm t s) = transitionCount s"
  "sensorOldMillis (arm t s) = t + sensorRefreshRate s"
  "stopSimulation (arm t s) = stopSimulation s"
  "numberTeeth (arm t s) = numberTeeth s"
  "sensorRefreshRate (arm t s) = sensorRefreshRate s"
  by (simp_all add: arm_def)

lemma emit_pins_fields [simp]:
  "nextStateIndex (emit_pins s) = nextStateIndex s"
  "direction (emit_pins s) = direction s"
  "revTickCount (emit_pins s) = revTickCount s"
  "revTickThreshold (emit_pins s) = revTickThreshold s"
  "totalRefs (emit_pins s) = totalRefs s"
  "transitionCount (emit_pins s) = transitionCount s"
  "sensorOldMillis (emit_pins s) = sensorOldMillis s"
  "stopSimulation (emit_pins s) = stopSimulation s"
  "numberTeeth (emit_pins s) = numberTeeth s"
  "sensorRefreshRate (emit_pins s) = sensorRefreshRate s"
  by (simp_all add: emit_pins_def Let_def)

lemma step_counters_fields [simp]:
  "direction (step_counters s) = direction s"
  "revTickThreshold (step_counters s) = revTickThreshold s"
  "totalRefs (step_counters s) = totalRefs s"
  "sensorOldMillis (step_counters s) = sensorOldMillis s"
  "stopSimulation (step_counters s) = stopSimulation s"
  "numberTeeth (step_counters s) = numberTeeth s"
  "sensorRefreshRate (step_counters s) = sensorRefreshRate s"
  "sensorState0 (step_counters s) = sensorState0 s"
  "sensorState1 (step_counters s) = sensorState1 s"
  "io (step_counters s) = io s"
  by (simp_all add: step_counters_def)

lemma step_counters_index:
  "nextStateIndex (step_counters s) =
     (if direction s \<noteq> 0 then nextStateIndex s + 1 else nextStateIndex s - 1)"
  by (simp add: step_counters_def)

lemma step_counters_revTickCount:
  "revTickCount (step_counters s) =
     (if direction s \<noteq> 0 then revTickCount s + 1 else revTickCount s - 1)"
  by (simp add: step_counters_def)

lemma step_counters_transitionCount:
  "transitionCount (step_counters s) =
     (if direction s \<noteq> 0 then transitionCount s + 1 else transitionCount s - 1)"
  by (simp add: step_counters_def)

lemma wrap_index_fields [simp]:
  "direction (wrap_index s) = direction s"
  "revTickCount (wrap_index s) = revTickCount s"
  "revTickThreshold (wrap_index s) = revTickThreshold s"
  "totalRefs (wrap_index s) = totalRefs s"
  "transitionCount (wrap_index s) = transitionCount s"
  "sensorOldMillis (wrap_index s) = sensorOldMillis s"
  "stopSimulation (wrap_index s) = stopSimulation s"
  "numberTeeth (wrap_index s) = numberTeeth s"
  "sensorRefreshRate (wrap_index s) = sensorRefreshRate s"
  "sensorState0 (wrap_index s) = sensorState0 s"
  "sensorState1 (wrap_index s) = sensorState1 s"
  "io (wrap_index s) = io s"
  by (simp_all add: wrap_index_def Let_def)

lemma wrap_index_index:
  "nextStateIndex (wrap_index s) =
     (if 3 <s nextStateIndex s then 0
      else if nextStateIndex s <s 0 then 3 else nextStateIndex s)"
  by (simp add: wrap_index_def Let_def word_sless_alt)

lemma count_revolution_fields [simp]:
  "direction (count_revolution s) = direction s"
  "revTickThreshold (count_revolution s) = revTickThreshold s"
  "transitionCount (count_revolution s) = transitionCount s"
  "sensorOldMillis (count_revolution s) = sensorOldMillis s"
  "nextStateIndex (count_revolution s) = nextStateIndex s"
  "stopSimulation (count_revolution s) = stopSimulation s"
  "numberTeeth (count_revolution s) = numberTeeth s"
  "sensorRefreshRate (count_revolution s) = sensorRefreshRate s"
  "sensorState0 (count_revolution s) = sensorState0 s"
  "sensorState1 (count_revolution s) = sensorState1 s"
  "io (count_revolution s) = io s"
  by (simp_all add: count_revolution_def)

lemma transition_direction [simp]: "direction (transition t s) = direction s"
  by (simp add: transition_def)

lemma transition_revTickThreshold [simp]:
  "revTickThreshold (transition t s) = revTickThreshold s"
  by (simp add: transition_def)

lemma transition_revTickCount:
  "revTickCount (transition t s) =
     (let c = (if direction s \<noteq> 0 then revTickCount s + 1 else revTickCount s - 1)
      in if c = revTickThreshold s \<or> c = - revTickThreshold s then 0 else c)"
  by (simp add: transition_def count_revolution_def step_counters_revTickCount Let_def)

lemma transition_totalRefs:
  "totalRefs (transition t s) =
     (let c = (if direction s \<noteq> 0 then revTickCount s + 1 else revTickCount s - 1)
      in if c = revTickThreshold s \<or> c = - revTickThreshold s
         then (if direction s \<noteq> 0 then totalRefs s + 1 else totalRefs s - 1)
         else totalRefs s)"
  by (simp add: transition_def count_revolution_def step_counters_revTickCount Let_def)

lemma button_response_index [simp]:
  "nextStateIndex (button_response ev s) = nextStateIndex s"
  by (cases ev) simp_all


lemma transition_sensorOldMillis:
  "sensorOldMillis (transition t s) = t + sensorRefreshRate s"
  by (simp add: transition_def)

lemma transition_transitionCount:
  "transitionCount (transition t s) =
     (if direction s \<noteq> 0 then transitionCount s + 1 else transitionCount s - 1)"
  by (simp add: transition_def step_counters_transitionCount)

lemma transition_stopSimulation: "stopSimulation (transition t s) = stopSimulation s"
  by (simp add: transition_def)

lemma tick_stopSimulation: "stopSimulation (tick t1 t2 s) = stopSimulation s"
  by (simp add: tick_def transition_stopSimulation)

lemma transition_config:
  "numberTeeth (transition t s) = numberTeeth s"
  "sensorRefreshRate (transition t s) = sensorRefreshRate s"
  by (simp_all add: transition_def)

lemma tick_config:
  "numberTeeth (tick t1 t2 s) = numberTeeth s"
  "sensorRefreshRate (tick t1 t2 s) = sensorRefreshRate s"
  by (simp_all add: tick_def transition_config)

lemma button_response_config:
  "numberTeeth (button_response ev s) = numberTeeth s"
  "sensorRefreshRate (button_response ev s) = sensorRefreshRate s"
  by (cases ev; simp)+

lemma process_events_config:
  "numberTeeth (process_events ins s) = numberTeeth s \<and>
   sensorRefreshRate (process_events ins s) = sensorRefreshRate s"
proof (induction ins arbitrary: s)
  case Nil
  show ?case by simp
next
  case (Cons x ins)
  obtain t1 t2 ev where x: "x = (t1, t2, ev)" by (cases x)
  show ?case
    using Cons.IH [of "button_response ev (tick t1 t2 s)"]
    by (simp add: x Let_def button_response_config tick_config)
qed

lemma tick_stopped: "stopSimulation s \<Longrightarrow> tick t1 t2 s = s"
  by (simp add: tick_def)

lemma ticks_stopped: "stopSimulation s \<Longrightarrow> ticks ts s = s"
  by (induction ts arbitrary: s) (auto simp: tick_stopped)

lemma process_events_no_event:
  "process_events (map (\<lambda>(t1, t2). (t1, t2, NoEvent)) ts) s = ticks ts s"
  by (induction ts arbitrary: s) (auto simp: Let_def)

lemma running_fields:
  "\<not> stopSimulation running" "sensorOldMillis running = 0"
  "sensorRefreshRate running = 10" "direction running = 1"
  "transitionCount running = 0" "nextStateIndex running = 0"
  by (simp_all add: running_def shipped_def process_events_init_def)

lemma transitions_snoc: "transitions (ts @ [t]) s = transition t (transitions ts s)"
  by (induction ts arbitrary: s) simp_all

lemma transitions_direction [simp]: "direction (transitions ts s) = direction s"
  by (induction ts arbitrary: s) simp_all

lemma transitions_revTickThreshold [simp]:
  "revTickThreshold (transitions ts s) = revTickThreshold s"
  by (induction ts arbitrary: s) simp_all

subsection \<open>The state index\<close>

lemma transition_index:
  "legal_index (nextStateIndex s) \<Longrightarrow>
   nextStateIndex (transition t s) =
     (if direction s \<noteq> 0 then [1, 2, 3, 0] ! unat (nextStateIndex s)
      else [3, 0, 1, 2] ! unat (nextStateIndex s))"
  unfolding transition_def legal_index_def
  by (auto simp: wrap_index_index step_counters_index word_sless_alt)

lemma transition_legal:
  "legal_index (nextStateIndex s) \<Longrightarrow> legal_index (nextStateIndex (transition t s))"
  by (auto simp: transition_index) (auto simp: legal_index_def)

lemma tick_legal:
  "legal_index (nextStateIndex s) \<Longrightarrow> legal_index (nextStateIndex (tick t1 t2 s))"
  by (simp add: tick_def transition_legal)

lemma process_events_legal:
  "legal_index (nextStateIndex s) \<Longrightarrow> legal_index (nextStateIndex (process_events ins s))"
proof (induction ins arbitrary: s)
  case Nil
  then show ?case by simp
next
  case (Cons x ins)
  obtain t1 t2 ev where x: "x = (t1, t2, ev)" by (cases x)
  have "legal_index (nextStateIndex (button_response ev (tick t1 t2 s)))"
    using Cons.prems by (simp add: tick_legal)
  then show ?case
    using Cons.IH by (simp add: x Let_def)
qed

text \<open>
  C1. Started with the state index in \<open>{0, 1, 2, 3}\<close>, the loop keeps it there
  whatever clock readings and button events it is given, so through any sequence of
  transitions in either direction. A single transition moves the index one place along
  0, 1, 2, 3, 0 when the direction is forward and one place along 0, 3, 2, 1, 0 when it
  is reverse: the lists below give the successor of each index.
\<close>

theorem state_index_cycle:
  assumes "legal_index (nextStateIndex s)"
  shows "legal_index (nextStateIndex (process_events ins s)) \<and>
         nextStateIndex (transition t s) =
           (if direction s \<noteq> 0 then [1, 2, 3, 0] ! unat (nextStateIndex s)
            else [3, 0, 1, 2] ! unat (nextStateIndex s))"
  using assms by (simp add: process_events_legal transition_index)

theorem state_index_cycle_witness:
  "legal_index (nextStateIndex shipped) \<and>
   legal_index (nextStateIndex (process_events
      [(0, 0, BlueButton), (5, 5, NoEvent), (20, 21, GreenButton), (40, 40, NoEvent),
       (60, 60, NoEvent), (80, 80, NoEvent)] shipped)) \<and>
   nextStateIndex (transition 5 shipped) = 1 \<and>
   nextStateIndex (transition 5 (shipped\<lparr>direction := 0\<rparr>)) = 3"
proof -
  have fwd: "legal_index (nextStateIndex shipped)"
    by (simp add: shipped_def process_events_init_def legal_index_def)
  have rev: "legal_index (nextStateIndex (shipped\<lparr>direction := 0\<rparr>))"
    by (simp add: shipped_def process_events_init_def legal_index_def)
  have d: "direction shipped = 1" "nextStateIndex shipped = 0"
    by (simp_all add: shipped_def process_events_init_def)
  from state_index_cycle [OF fwd,
      of "[(0, 0, BlueButton), (5, 5, NoEvent), (20, 21, GreenButton), (40, 40, NoEvent),
           (60, 60, NoEvent), (80, 80, NoEvent)]" 5]
  have run: "legal_index (nextStateIndex (process_events
      [(0, 0, BlueButton), (5, 5, NoEvent), (20, 21, GreenButton), (40, 40, NoEvent),
       (60, 60, NoEvent), (80, 80, NoEvent)] shipped)) \<and>
      nextStateIndex (transition 5 shipped) = 1"
    using d by simp
  from state_index_cycle [OF rev, of "[]" 5]
  have rv: "nextStateIndex (transition 5 (shipped\<lparr>direction := 0\<rparr>)) = 3"
    using d by simp
  from fwd run rv show ?thesis by (simp only: simp_thms)
qed

subsection \<open>Counting revolutions\<close>

lemma of_nat_ne_small:
  "a < b \<Longrightarrow> b < 2 ^ 31 \<Longrightarrow> (of_nat a :: 32 word) \<noteq> of_nat b"
  by (simp add: word_of_nat_eq_iff take_bit_nat_eq_self)

lemma of_nat_ne_neg:
  assumes "a < 2 ^ 31" "b < 2 ^ 31" "0 < a + b"
  shows "(of_nat a :: 32 word) \<noteq> - of_nat b"
proof
  assume "(of_nat a :: 32 word) = - of_nat b"
  then have "(of_nat (a + b) :: 32 word) = 0" by simp
  then have "2 ^ 32 dvd a + b"
    by (simp only: word_of_nat_eq_0_iff) simp
  moreover have "a + b < 2 ^ 32" using assms by simp
  ultimately show False using assms(3) by (meson nat_dvd_not_less)
qed

lemma neg_of_nat_ne_small:
  assumes "a < b" "b < 2 ^ 31"
  shows "- (of_nat a :: 32 word) \<noteq> - of_nat b"
proof
  assume "- (of_nat a :: 32 word) = - of_nat b"
  then have "(of_nat a :: 32 word) = of_nat b" by (simp only: neg_equal_iff_equal)
  with of_nat_ne_small [OF assms] show False by contradiction
qed

lemma neg_of_nat_ne:
  assumes "a < 2 ^ 31" "b < 2 ^ 31" "0 < a + b"
  shows "- (of_nat a :: 32 word) \<noteq> of_nat b"
proof -
  have "0 < b + a" using assms(3) by arith
  from of_nat_ne_neg [OF assms(2) assms(1) this] show ?thesis by (rule not_sym)
qed

lemma forward_below_threshold:
  assumes "direction s \<noteq> 0" "revTickThreshold s = of_nat thr" "thr < 2 ^ 31"
    and "revTickCount s = of_nat k" "k + length ts < thr"
  shows "revTickCount (transitions ts s) = of_nat (k + length ts) \<and>
         totalRefs (transitions ts s) = totalRefs s"
  using assms
proof (induction ts arbitrary: s k)
  case Nil
  then show ?case by simp
next
  case (Cons t ts)
  have k1: "Suc k < thr" "Suc k < 2 ^ 31" using Cons.prems by simp_all
  have ne1: "(of_nat (Suc k) :: 32 word) \<noteq> of_nat thr"
    using k1(1) Cons.prems(3) by (rule of_nat_ne_small)
  have ne2: "(of_nat (Suc k) :: 32 word) \<noteq> - of_nat thr"
    using k1(2) Cons.prems(3) by (rule of_nat_ne_neg) simp
  have c1: "revTickCount s + 1 = of_nat (Suc k)"
    using Cons.prems(4) by simp
  have c: "revTickCount (transition t s) = of_nat (Suc k)"
    unfolding transition_revTickCount Let_def c1
    using Cons.prems(1,2) ne1 ne2 by (simp del: of_nat_Suc)
  have r: "totalRefs (transition t s) = totalRefs s"
    unfolding transition_totalRefs Let_def c1
    using Cons.prems(1,2) ne1 ne2 by (simp del: of_nat_Suc)
  have "revTickCount (transitions ts (transition t s)) = of_nat (Suc k + length ts) \<and>
        totalRefs (transitions ts (transition t s)) = totalRefs (transition t s)"
  proof (rule Cons.IH)
    show "direction (transition t s) \<noteq> 0" using Cons.prems(1) by simp
    show "revTickThreshold (transition t s) = of_nat thr" using Cons.prems(2) by simp
    show "thr < 2 ^ 31" by (rule Cons.prems(3))
    show "revTickCount (transition t s) = of_nat (Suc k)" by (rule c)
    show "Suc k + length ts < thr" using Cons.prems(5) by simp
  qed
  then show ?case by (simp add: r)
qed

lemma reverse_below_threshold:
  assumes "direction s = 0" "revTickThreshold s = of_nat thr" "thr < 2 ^ 31"
    and "revTickCount s = - of_nat k" "k + length ts < thr"
  shows "revTickCount (transitions ts s) = - of_nat (k + length ts) \<and>
         totalRefs (transitions ts s) = totalRefs s"
  using assms
proof (induction ts arbitrary: s k)
  case Nil
  then show ?case by simp
next
  case (Cons t ts)
  have k1: "Suc k < thr" "Suc k < 2 ^ 31" using Cons.prems by simp_all
  have ne1: "- (of_nat (Suc k) :: 32 word) \<noteq> - of_nat thr"
    using k1(1) Cons.prems(3) by (rule neg_of_nat_ne_small)
  have ne2: "- (of_nat (Suc k) :: 32 word) \<noteq> of_nat thr"
    using k1(2) Cons.prems(3) by (rule neg_of_nat_ne) simp
  have c1: "revTickCount s - 1 = - of_nat (Suc k)"
    using Cons.prems(4) by simp
  have c: "revTickCount (transition t s) = - of_nat (Suc k)"
    unfolding transition_revTickCount Let_def 
    using Cons.prems(1,2) ne1 ne2 c1 by (simp del: of_nat_Suc)
  have r: "totalRefs (transition t s) = totalRefs s"
    unfolding transition_totalRefs Let_def 
    using Cons.prems(1,2) ne1 ne2 c1 by (simp del: of_nat_Suc)
  have "revTickCount (transitions ts (transition t s)) = - of_nat (Suc k + length ts) \<and>
        totalRefs (transitions ts (transition t s)) = totalRefs (transition t s)"
  proof (rule Cons.IH)
    show "direction (transition t s) = 0" using Cons.prems(1) by simp
    show "revTickThreshold (transition t s) = of_nat thr" using Cons.prems(2) by simp
    show "thr < 2 ^ 31" by (rule Cons.prems(3))
    show "revTickCount (transition t s) = - of_nat (Suc k)" by (rule c)
    show "Suc k + length ts < thr" using Cons.prems(5) by simp
  qed
  then show ?case by (simp add: r)
qed


text \<open>
  C2. Let the revolution threshold be four times the number of teeth \<open>T\<close>, with
  \<open>T\<close> positive and \<open>4 * T\<close> within the range of \<^verbatim>\<open>int\<close>, and let the tick
  accumulator stand at 0. After exactly \<open>4 * T\<close> consecutive transitions in the
  direction the state holds, the accumulator is 0 again and \<^verbatim>\<open>totalRefs\<close> has
  changed by exactly \<open>+1\<close> (forward) or \<open>-1\<close> (reverse); after any smaller
  number of them \<^verbatim>\<open>totalRefs\<close> has not changed.
\<close>

theorem revolution_after_4T:
  assumes "0 < T" "4 * T < 2 ^ 31"
    and "numberTeeth s = of_nat T" "revTickThreshold s = 4 * numberTeeth s"
    and "revTickCount s = 0" "length ts = 4 * T"
  shows "revTickCount (transitions ts s) = 0 \<and>
         totalRefs (transitions ts s) =
           (if direction s \<noteq> 0 then totalRefs s + 1 else totalRefs s - 1) \<and>
         (\<forall>n < 4 * T. totalRefs (transitions (take n ts) s) = totalRefs s)"
proof -
  define thr where "thr = 4 * T"
  have thr: "revTickThreshold s = of_nat thr" "thr < 2 ^ 31" "0 < thr"
    using assms by (simp_all add: thr_def)
  obtain k where k: "thr = Suc k" using thr(3) by (cases thr) simp_all
  have len: "length ts = Suc k" using assms(6) k by (simp add: thr_def)
  have split: "ts = take k ts @ [ts ! k]"
    using len by (metis lessI take_Suc_conv_app_nth take_all order_refl)
  have before: "(if direction s \<noteq> 0
                 then revTickCount (transitions (take n ts) s) = of_nat n
                 else revTickCount (transitions (take n ts) s) = - of_nat n) \<and>
                totalRefs (transitions (take n ts) s) = totalRefs s" if "n < thr" for n
  proof (cases "direction s \<noteq> 0")
    case True
    have "revTickCount (transitions (take n ts) s) = of_nat (0 + length (take n ts)) \<and>
          totalRefs (transitions (take n ts) s) = totalRefs s"
      using True thr(1,2) assms(5) that len k by (intro forward_below_threshold) simp_all
    then show ?thesis using True that len k by simp
  next
    case False
    have "revTickCount (transitions (take n ts) s) = - of_nat (0 + length (take n ts)) \<and>
          totalRefs (transitions (take n ts) s) = totalRefs s"
      using False thr(1,2) assms(5) that len k by (intro reverse_below_threshold) simp_all
    then show ?thesis using False that len k by simp
  qed
  have last: "transitions ts s = transition (ts ! k) (transitions (take k ts) s)"
    using split transitions_snoc by metis
  have bk: "(if direction s \<noteq> 0
             then revTickCount (transitions (take k ts) s) = of_nat k
             else revTickCount (transitions (take k ts) s) = - of_nat k) \<and>
            totalRefs (transitions (take k ts) s) = totalRefs s"
    using before [of k] k by simp
  have fin: "revTickCount (transitions ts s) = 0 \<and>
        totalRefs (transitions ts s) =
          (if direction s \<noteq> 0 then totalRefs s + 1 else totalRefs s - 1)"
  proof (cases "direction s \<noteq> 0")
    case True
    have "revTickCount (transitions (take k ts) s) + 1 = of_nat thr"
      using bk True k by simp
    then show ?thesis
      unfolding last transition_revTickCount transition_totalRefs Let_def
      using True thr(1) bk by simp
  next
    case False
    have "revTickCount (transitions (take k ts) s) - 1 = - of_nat thr"
      using bk False k by simp
    then show ?thesis
      unfolding last transition_revTickCount transition_totalRefs Let_def
      using False thr(1) bk by simp
  qed
  have "\<forall>n < 4 * T. totalRefs (transitions (take n ts) s) = totalRefs s"
    using before by (simp add: thr_def)
  with fin show ?thesis by simp
qed

theorem revolution_after_4T_witness:
  "revTickCount (transitions (replicate 100 5) shipped) = 0 \<and>
   totalRefs (transitions (replicate 100 5) shipped) = 1 \<and>
   revTickCount (transitions (replicate 100 5) (shipped\<lparr>direction := 0\<rparr>)) = 0 \<and>
   totalRefs (transitions (replicate 100 5) (shipped\<lparr>direction := 0\<rparr>)) = - 1"
  using revolution_after_4T [of 25 shipped "replicate 100 5"]
    revolution_after_4T [of 25 "shipped\<lparr>direction := 0\<rparr>" "replicate 100 5"]
  by (simp add: shipped_def process_events_init_def)


subsection \<open>The pins a transition writes\<close>



subsection \<open>The timing gate\<close>

lemma arm_overwrites: "arm t (s\<lparr>sensorOldMillis := d\<rparr>) = arm t s"
  by (simp add: arm_def)

lemma transition_overwrites: "transition t (s\<lparr>sensorOldMillis := d\<rparr>) = transition t s"
  by (simp add: transition_def arm_overwrites)

text \<open>
  C4. The gate is open exactly when the clock has reached \<^verbatim>\<open>sensorOldMillis\<close>, and
  arming it sets \<^verbatim>\<open>sensorOldMillis\<close> to the clock reading plus the refresh rate and
  changes nothing else. When the simulation runs and the deadline lies at or before
  the reading \<open>t1\<close>, however far, the tick fires exactly one transition, moves
  \<^verbatim>\<open>transitionCount\<close> by one step, and leaves the deadline at the current reading
  \<open>t2\<close> plus the refresh rate: the result is the same for every earlier deadline
  \<open>d\<close>, so missed periods are not made up. With a deadline \<open>d'\<close> still ahead the
  tick does nothing.
\<close>

theorem timing_gate:
  assumes "\<not> stopSimulation s" "sensorOldMillis s \<le> t1" "d \<le> t1" "t1 < d'"
  shows "(is_due now s \<longleftrightarrow> sensorOldMillis s \<le> now) \<and>
         arm now s = s\<lparr>sensorOldMillis := now + sensorRefreshRate s\<rparr> \<and>
         (is_due now' (arm now s) \<longleftrightarrow> now + sensorRefreshRate s \<le> now') \<and>
         tick t1 t2 s = transition t2 s \<and>
         sensorOldMillis (tick t1 t2 s) = t2 + sensorRefreshRate s \<and>
         transitionCount (tick t1 t2 s) =
           (if direction s \<noteq> 0 then transitionCount s + 1 else transitionCount s - 1) \<and>
         tick t1 t2 (s\<lparr>sensorOldMillis := d\<rparr>) = tick t1 t2 s \<and>
         tick t1 t2 (s\<lparr>sensorOldMillis := d'\<rparr>) = s\<lparr>sensorOldMillis := d'\<rparr>"
proof -
  have fire: "tick t1 t2 s = transition t2 s"
    using assms(1,2) by (simp add: tick_def is_due_def)
  have fire_d: "tick t1 t2 (s\<lparr>sensorOldMillis := d\<rparr>) = tick t1 t2 s"
    using assms(1,3) by (simp add: fire) (simp add: tick_def is_due_def transition_overwrites)
  have ahead: "tick t1 t2 (s\<lparr>sensorOldMillis := d'\<rparr>) = s\<lparr>sensorOldMillis := d'\<rparr>"
  proof -
    have "\<not> d' \<le> t1" using assms(4) by (simp add: not_le)
    then show ?thesis by (simp add: tick_def is_due_def)
  qed
  have g1: "is_due now s \<longleftrightarrow> sensorOldMillis s \<le> now"
    by (simp add: is_due_def)
  have g2: "arm now s = s\<lparr>sensorOldMillis := now + sensorRefreshRate s\<rparr>"
    by (simp add: arm_def)
  have g3: "is_due now' (arm now s) \<longleftrightarrow> now + sensorRefreshRate s \<le> now'"
    by (simp add: is_due_def)
  have dl: "sensorOldMillis (tick t1 t2 s) = t2 + sensorRefreshRate s"
    by (simp add: fire transition_sensorOldMillis)
  have tc: "transitionCount (tick t1 t2 s) =
           (if direction s \<noteq> 0 then transitionCount s + 1 else transitionCount s - 1)"
    by (simp only: fire transition_transitionCount)
  show ?thesis
    by (intro conjI) (rule g1 g2 g3 fire dl tc fire_d ahead)+
qed

theorem timing_gate_witness:
  "tick 5000 5001 running = transition 5001 running \<and>
   sensorOldMillis (tick 5000 5001 running) = 5011 \<and>
   transitionCount (tick 5000 5001 running) = 1 \<and>
   tick 5000 5001 (running\<lparr>sensorOldMillis := 10\<rparr>) = tick 5000 5001 running"
proof -
  have h: "\<not> stopSimulation running" "sensorOldMillis running \<le> 5000"
    "(10 :: uint32) \<le> 5000" "(5000 :: uint32) < 6000"
    by (simp_all add: running_fields)
  from timing_gate [OF h, of 0 0 5001]
  have a: "tick 5000 5001 running = transition 5001 running"
    and b: "sensorOldMillis (tick 5000 5001 running) = 5001 + sensorRefreshRate running"
    and c: "transitionCount (tick 5000 5001 running) =
       (if direction running \<noteq> 0 then transitionCount running + 1
        else transitionCount running - 1)"
    and e: "tick 5000 5001 (running\<lparr>sensorOldMillis := 10\<rparr>) = tick 5000 5001 running"
    by blast+
  have b': "sensorOldMillis (tick 5000 5001 running) = 5011"
    by (simp add: b running_fields)
  have c': "transitionCount (tick 5000 5001 running) = 1"
    by (simp add: c running_fields)
  show ?thesis by (intro conjI) (rule a b' c' e)+
qed

subsection \<open>Pausing\<close>

text \<open>
  C5. While the simulation is stopped, any number of ticks leaves the whole state as it
  is: the state index, \<^verbatim>\<open>transitionCount\<close>, \<^verbatim>\<open>revTickCount\<close>, \<^verbatim>\<open>totalRefs\<close>, the pin
  values and the log of pin writes. The same holds for loop iterations with no event
  pending.
\<close>

theorem paused_ticks_change_nothing:
  assumes "stopSimulation s"
  shows "ticks ts s = s \<and>
         process_events (map (\<lambda>(t1, t2). (t1, t2, NoEvent)) ts) s = s"
  using assms by (simp add: process_events_no_event ticks_stopped)

theorem paused_ticks_change_nothing_witness:
  "stopSimulation shipped \<and> ticks [(0, 0), (10, 10), (5000, 5001)] shipped = shipped"
proof -
  have p: "stopSimulation shipped" by (simp add: shipped_def process_events_init_def)
  from paused_ticks_change_nothing [OF p, of "[(0, 0), (10, 10), (5000, 5001)]"] p
  show ?thesis by (simp only: simp_thms)
qed

text \<open>
  C10. The blue button changes the stop flag and nothing else. Pausing a running
  simulation, letting any number of ticks pass and pressing the button again gives back
  the state as it was before the pause, the deadline included, so the first tick whose
  reading has reached that deadline fires a transition at once.
\<close>

theorem pause_keeps_deadline:
  assumes "\<not> stopSimulation s" "sensorOldMillis s \<le> t1"
  shows "button_response BlueButton s = s\<lparr>stopSimulation := True\<rparr> \<and>
         ticks ts (button_response BlueButton s) = s\<lparr>stopSimulation := True\<rparr> \<and>
         button_response BlueButton (ticks ts (button_response BlueButton s)) = s \<and>
         tick t1 t2 (button_response BlueButton (ticks ts (button_response BlueButton s))) =
           transition t2 s"
proof -
  have p: "button_response BlueButton s = s\<lparr>stopSimulation := True\<rparr>"
    using assms(1) by simp
  have q: "ticks ts (s\<lparr>stopSimulation := True\<rparr>) = s\<lparr>stopSimulation := True\<rparr>"
    by (rule ticks_stopped) simp
  have r: "button_response BlueButton (s\<lparr>stopSimulation := True\<rparr>) = s"
    using assms(1) by simp
  have f: "tick t1 t2 s = transition t2 s"
    using assms by (simp add: tick_def is_due_def)
  show ?thesis by (simp only: p q r f simp_thms)
qed

theorem pause_keeps_deadline_witness:
  "tick 90000 90002 (button_response BlueButton (ticks [(30, 30), (60000, 60000)]
      (button_response BlueButton running))) = transition 90002 running"
proof -
  have h: "\<not> stopSimulation running" "sensorOldMillis running \<le> 90000"
    by (simp_all add: running_fields)
  from pause_keeps_deadline [OF h, of "[(30, 30), (60000, 60000)]" 90002] show ?thesis
    by blast
qed

subsection \<open>The state on entry to the loop\<close>

text \<open>
  C7, in the form that holds of the code. On entry to the loop the simulation is stopped, the state index, the
  transition count, the tick accumulator and the revolution count are 0, and the
  deadline \<^verbatim>\<open>sensorOldMillis\<close> is 0, whatever the clock shows at that moment: the
  start state is the one described exactly when the time of setting up is 0.
\<close>

theorem initial_state:
  "initial_as_claimed now (process_events_init teeth refresh rps) = (now = 0)"
  by (auto simp add: initial_as_claimed_def process_events_init_def)

text \<open>
  The loop is entered after the LED show, which waits 14 times 50 ms; with the clock
  at 700 the deadline is not the current time.
\<close>

theorem initial_deadline_not_now: "\<not> initial_as_claimed 700 shipped"
  by (simp add: initial_as_claimed_def process_events_init_def shipped_def)

subsection \<open>The mode variables\<close>

lemma arm_mode:
  "arm t (s\<lparr>quadMode := m, tickLimit := l\<rparr>) = (arm t s)\<lparr>quadMode := m, tickLimit := l\<rparr>"
  by (simp add: arm_def)

lemma emit_pins_mode:
  "emit_pins (s\<lparr>quadMode := m, tickLimit := l\<rparr>) =
     (emit_pins s)\<lparr>quadMode := m, tickLimit := l\<rparr>"
  by (simp add: emit_pins_def Let_def)

lemma step_counters_mode:
  "step_counters (s\<lparr>quadMode := m, tickLimit := l\<rparr>) =
     (step_counters s)\<lparr>quadMode := m, tickLimit := l\<rparr>"
  by (simp add: step_counters_def)

lemma wrap_index_mode:
  "wrap_index (s\<lparr>quadMode := m, tickLimit := l\<rparr>) =
     (wrap_index s)\<lparr>quadMode := m, tickLimit := l\<rparr>"
  by (simp add: wrap_index_def Let_def)

lemma count_revolution_mode:
  "count_revolution (s\<lparr>quadMode := m, tickLimit := l\<rparr>) =
     (count_revolution s)\<lparr>quadMode := m, tickLimit := l\<rparr>"
  by (simp add: count_revolution_def)

lemma transition_mode:
  "transition t (s\<lparr>quadMode := m, tickLimit := l\<rparr>) =
     (transition t s)\<lparr>quadMode := m, tickLimit := l\<rparr>"
  by (simp only: transition_def arm_mode emit_pins_mode step_counters_mode wrap_index_mode
      count_revolution_mode)

lemma tick_mode:
  "tick t1 t2 (s\<lparr>quadMode := m, tickLimit := l\<rparr>) =
     (tick t1 t2 s)\<lparr>quadMode := m, tickLimit := l\<rparr>"
  by (simp add: tick_def is_due_def transition_mode)

lemma button_response_mode:
  "button_response ev (s\<lparr>quadMode := m, tickLimit := l\<rparr>) =
     (button_response ev s)\<lparr>quadMode := m, tickLimit := l\<rparr>"
  by (cases ev) simp_all

lemma process_events_mode:
  "process_events ins (s\<lparr>quadMode := m, tickLimit := l\<rparr>) =
     (process_events ins s)\<lparr>quadMode := m, tickLimit := l\<rparr>"
proof (induction ins arbitrary: s)
  case Nil
  show ?case by simp
next
  case (Cons x ins)
  obtain t1 t2 ev where x: "x = (t1, t2, ev)" by (cases x)
  show ?case
    by (simp only: x process_events.simps Let_def tick_mode button_response_mode Cons.IH
        if_distrib [of "\<lambda>r. r\<lparr>quadMode := m, tickLimit := l\<rparr>"])
qed

text \<open>
  C8. The simulation does not depend on \<^verbatim>\<open>quadMode\<close> and \<^verbatim>\<open>tickLimit\<close>: for every
  mode \<open>m\<close> and limit \<open>l\<close> and every state, counters included, the loop and the tick
  do to a state with these two values what they do to the state without them, and
  carry the two values along unchanged. In particular a tick never sets the stop flag,
  so no mode and no limit stops the simulator.
\<close>

theorem mode_is_inert:
  "process_events ins (s\<lparr>quadMode := m, tickLimit := l\<rparr>) =
     (process_events ins s)\<lparr>quadMode := m, tickLimit := l\<rparr> \<and>
   tick t1 t2 (s\<lparr>quadMode := m, tickLimit := l\<rparr>) =
     (tick t1 t2 s)\<lparr>quadMode := m, tickLimit := l\<rparr> \<and>
   stopSimulation (tick t1 t2 (s\<lparr>quadMode := m, tickLimit := l\<rparr>)) = stopSimulation s"
proof -
  have "stopSimulation (tick t1 t2 (s\<lparr>quadMode := m, tickLimit := l\<rparr>)) = stopSimulation s"
    by (simp add: tick_stopSimulation)
  then show ?thesis
    by (intro conjI) (rule process_events_mode tick_mode | assumption)+
qed

subsection \<open>The transition counter\<close>

text \<open>
  C9. Every transition adds 1 to \<^verbatim>\<open>transitionCount\<close> when the direction is forward
  and subtracts 1 when it is reverse, in 32-bit arithmetic with no guard: from the
  largest value a forward transition leads to the smallest, and from the smallest a
  reverse transition leads to the largest.
\<close>

theorem transition_count_wraps:
  "transitionCount (transition t s) =
     (if direction s \<noteq> 0 then transitionCount s + 1 else transitionCount s - 1) \<and>
   sint (transitionCount
     (transition t (s\<lparr>direction := 1, transitionCount := 2147483647\<rparr>))) = - 2147483648 \<and>
   sint (transitionCount
     (transition t (s\<lparr>direction := 0, transitionCount := - 2147483648\<rparr>))) = 2147483647"
  by (simp add: transition_transitionCount)

end
